theory Spec2Isabelle
  imports Complex_Main
begin

section \<open>JavaScript values\<close>

text \<open>
  A thrown JavaScript \<^verbatim>\<open>Error\<close> is a value carrying its message. A call that may
  throw (or an awaited promise that may reject) returns \<open>exn + 'a\<close>, \<open>Inl\<close> being the
  thrown error. Calls into code outside the repository either return or throw; a
  promise that never settles is outside this model.
\<close>

datatype exn = Error string

text \<open>
  A JavaScript number, as far as its truthiness is concerned: \<open>0\<close>, \<open>-0\<close> (identified with
  \<open>0\<close>) and \<open>NaN\<close> are falsy, everything else is truthy.
\<close>

datatype number = NaN | Num real | PosInfinity | NegInfinity

fun truthy_number :: "number \<Rightarrow> bool" where
  "truthy_number NaN = False"
| "truthy_number (Num r) = (r \<noteq> 0)"
| "truthy_number PosInfinity = True"
| "truthy_number NegInfinity = True"

text \<open>A string is falsy exactly when it is empty.\<close>

definition truthy_string :: "string \<Rightarrow> bool" where
  "truthy_string s = (s \<noteq> [])"

text \<open>\<^verbatim>\<open>x || undefined\<close> on a number and on a string; \<open>None\<close> is \<^verbatim>\<open>undefined\<close>.\<close>

definition number_or_undefined :: "number \<Rightarrow> number option" where
  "number_or_undefined x = (if truthy_number x then Some x else None)"

definition string_or_undefined :: "string \<Rightarrow> string option" where
  "string_or_undefined s = (if truthy_string s then Some s else None)"

text \<open>Decimal rendering of a non-negative integer, as a template literal prints it.\<close>

fun decimal :: "nat \<Rightarrow> string" where
  "decimal n =
     (if n < 10 then [char_of (48 + n)]
      else decimal (n div 10) @ [char_of (48 + n mod 10)])"

declare decimal.simps [simp del]

definition newline :: string where
  "newline = [CHR 10]"


section \<open>Application state\<close>

text \<open>
  A transcript turn \<^verbatim>\<open>{role, text, isFinal}\<close> of the log store.
\<close>

datatype role = User | Agent | System

record turn =
  turn_role :: role
  turn_text :: string
  isFinal :: bool

text \<open>
  \<^verbatim>\<open>LiveConnectConfig\<close> is a bag of connection options; \<^verbatim>\<open>{}\<close> is the empty bag. The hook
  state holds a value that the guard of \<^verbatim>\<open>connect\<close> tests for truthiness: \<open>None\<close> stands
  for \<^verbatim>\<open>undefined\<close>/\<^verbatim>\<open>null\<close>, \<open>Some c\<close> for an object, which is truthy whatever it holds.
\<close>

type_synonym liveConnectConfig = "(string \<times> string) list"

text \<open>The result of a tool: \<^verbatim>\<open>GenerateContentResponse | string\<close>.\<close>

datatype 'r toolResponse = Text string | Structured 'r

text \<open>A function call \<^verbatim>\<open>{id, name, args}\<close> of a tool-call message.\<close>

record 'a functionCall =
  call_id :: string
  call_name :: string
  call_args :: 'a

text \<open>A function response \<^verbatim>\<open>{id, name, response: {result}}\<close>.\<close>

record 'r functionResponse =
  resp_id :: string
  resp_name :: string
  resp_result :: "'r toolResponse"

record 'a liveServerToolCall =
  functionCalls :: "'a functionCall list"

record closeEvent =
  reason :: string

text \<open>
  Everything the hook \<^verbatim>\<open>useLiveApi\<close> reads and writes:
  \<^item> \<open>turns\<close>, \<open>isAwaitingFunctionResponse\<close>: the log store;
  \<^item> \<open>markers\<close>: the map store;
  \<^item> \<open>connected\<close>, \<open>config\<close>: the hook's own state (\<^verbatim>\<open>useState\<close>);
  \<^item> \<open>sessions\<close>: the live connections the client holds, each with the configuration
    it was opened with;
  \<^item> \<open>journal\<close>: what is not kept elsewhere in the state, in the order it happened:
    the values given to the awaiting flag, the tools invoked, and the messages handed
    to \<^verbatim>\<open>client.sendRealtimeText\<close> and \<^verbatim>\<open>client.sendToolResponse\<close>;
  \<^item> \<open>toolState\<close>: whatever the tool context gives a tool implementation access to
    (map element, service handles, the held grounding result). Tool implementations
    act on this part only: the transcript and the awaiting flag are written by the
    hook alone.
\<close>

datatype 'r event =
    SetIsAwaiting bool
  | ToolInvoked string
  | SendRealtimeText string
  | SendToolResponse "'r functionResponse list"

record ('r, 'c, 'm) world =
  turns :: "turn list"
  isAwaitingFunctionResponse :: bool
  markers :: "'m list"
  connected :: bool
  config :: "liveConnectConfig option"
  sessions :: "liveConnectConfig list"
  journal :: "'r event list"
  toolState :: 'c

text \<open>The batches handed to \<^verbatim>\<open>client.sendToolResponse\<close>, in order.\<close>

fun toolResponsesSent :: "'r event list \<Rightarrow> 'r functionResponse list list" where
  "toolResponsesSent [] = []"
| "toolResponsesSent (SendToolResponse rs # evs) = rs # toolResponsesSent evs"
| "toolResponsesSent (SetIsAwaiting b # evs) = toolResponsesSent evs"
| "toolResponsesSent (ToolInvoked n # evs) = toolResponsesSent evs"
| "toolResponsesSent (SendRealtimeText t # evs) = toolResponsesSent evs"

text \<open>The state the hook starts in: \<^verbatim>\<open>useState(false)\<close>, \<^verbatim>\<open>useState<LiveConnectConfig>({})\<close>.\<close>

definition initial_world :: "'c \<Rightarrow> ('r, 'c, 'm) world" where
  "initial_world c =
     \<lparr>turns = [], isAwaitingFunctionResponse = False, markers = [], connected = False,
      config = Some [], sessions = [], journal = [], toolState = c\<rparr>"


subsection \<open>The stores and the client\<close>

text \<open>
  Modelled from the spec: the log store (\<^verbatim>\<open>useLogStore\<close> of \<^verbatim>\<open>lib/state\<close>) is not among the
  sources. Its transcript is an ordered sequence, append-only except that the last
  turn may be updated; the awaiting flag is a plain boolean, and every value it is
  given is entered in the journal.
\<close>

definition addTurn :: "turn \<Rightarrow> ('r, 'c, 'm) world \<Rightarrow> ('r, 'c, 'm) world" where
  "addTurn t w = w\<lparr>turns := turns w @ [t]\<rparr>"

definition updateLastTurn ::
  "(turn \<Rightarrow> turn) \<Rightarrow> ('r, 'c, 'm) world \<Rightarrow> ('r, 'c, 'm) world" where
  "updateLastTurn upd w =
     (case rev (turns w) of
        [] \<Rightarrow> w
      | t # before \<Rightarrow> w\<lparr>turns := rev before @ [upd t]\<rparr>)"

definition clearTurns :: "('r, 'c, 'm) world \<Rightarrow> ('r, 'c, 'm) world" where
  "clearTurns w = w\<lparr>turns := []\<rparr>"

definition setIsAwaitingFunctionResponse ::
  "bool \<Rightarrow> ('r, 'c, 'm) world \<Rightarrow> ('r, 'c, 'm) world" where
  "setIsAwaitingFunctionResponse b w =
     w\<lparr>isAwaitingFunctionResponse := b, journal := journal w @ [SetIsAwaiting b]\<rparr>"

text \<open>
  Modelled from the spec: the map store (\<^verbatim>\<open>useMapStore\<close> of \<^verbatim>\<open>lib/state\<close>) is not among the
  sources; \<^verbatim>\<open>clearMarkers\<close> empties the marker set.
\<close>

definition clearMarkers :: "('r, 'c, 'm) world \<Rightarrow> ('r, 'c, 'm) world" where
  "clearMarkers w = w\<lparr>markers := []\<rparr>"

definition setConnected :: "bool \<Rightarrow> ('r, 'c, 'm) world \<Rightarrow> ('r, 'c, 'm) world" where
  "setConnected b w = w\<lparr>connected := b\<rparr>"

text \<open>
  Modelled from the spec: the live session client (\<^verbatim>\<open>GenAILiveClient\<close>) is not among the
  sources. \<^verbatim>\<open>disconnect\<close> tears down the connection and is a no-op when there is none;
  \<^verbatim>\<open>connect\<close> establishes a connection with the given configuration or fails when the
  transport cannot be established (the parameter \<open>transport\<close> says which, \<open>Some e\<close>
  being the failure), and does not by itself replace an existing connection;
  \<^verbatim>\<open>sendRealtimeText\<close> and \<^verbatim>\<open>sendToolResponse\<close> hand a message to the client. Whether
  \<^verbatim>\<open>sendToolResponse\<close> throws is left to the parameter \<open>fault\<close>; the call is entered in
  the journal either way.
\<close>

definition client_disconnect :: "('r, 'c, 'm) world \<Rightarrow> ('r, 'c, 'm) world" where
  "client_disconnect w = w\<lparr>sessions := []\<rparr>"

definition client_connect ::
  "(liveConnectConfig \<Rightarrow> exn option) \<Rightarrow> liveConnectConfig \<Rightarrow> ('r, 'c, 'm) world
     \<Rightarrow> (exn + unit) \<times> ('r, 'c, 'm) world" where
  "client_connect transport cfg w =
     (case transport cfg of
        Some e \<Rightarrow> (Inl e, w)
      | None \<Rightarrow> (Inr (), w\<lparr>sessions := sessions w @ [cfg]\<rparr>))"

definition client_sendRealtimeText :: "string \<Rightarrow> ('r, 'c, 'm) world \<Rightarrow> ('r, 'c, 'm) world" where
  "client_sendRealtimeText s w = w\<lparr>journal := journal w @ [SendRealtimeText s]\<rparr>"

definition client_sendToolResponse ::
  "('r functionResponse list \<Rightarrow> exn option) \<Rightarrow> 'r functionResponse list
     \<Rightarrow> ('r, 'c, 'm) world \<Rightarrow> (exn + unit) \<times> ('r, 'c, 'm) world" where
  "client_sendToolResponse fault rs w =
     (let w' = w\<lparr>journal := journal w @ [SendToolResponse rs]\<rparr>
      in case fault rs of Some e \<Rightarrow> (Inl e, w') | None \<Rightarrow> (Inr (), w'))"


section \<open>The hook \<^verbatim>\<open>useLiveApi\<close>\<close>

subsection \<open>Session events\<close>

definition onOpen :: "('r, 'c, 'm) world \<Rightarrow> ('r, 'c, 'm) world" where
  "onOpen w = setConnected True w"

definition onSetupComplete :: "('r, 'c, 'm) world \<Rightarrow> ('r, 'c, 'm) world" where
  "onSetupComplete w = client_sendRealtimeText ''hello'' w"

definition onClose :: "closeEvent \<Rightarrow> ('r, 'c, 'm) world \<Rightarrow> ('r, 'c, 'm) world" where
  "onClose event w =
     (let w1 = setConnected False w;
          reason = ''Session ended. Press 'Play' to start a new session. '' @ reason event
      in addTurn \<lparr>turn_role = Agent, turn_text = reason, isFinal = True\<rparr> w1)"

text \<open>
  \<^verbatim>\<open>turns[turns.length - 1]\<close> is \<^verbatim>\<open>undefined\<close> on an empty transcript, which the guard
  \<^verbatim>\<open>lastTurn && !lastTurn.isFinal\<close> rejects.
\<close>

definition onInterrupted :: "('r, 'c, 'm) world \<Rightarrow> ('r, 'c, 'm) world" where
  "onInterrupted w =
     (case rev (turns w) of
        [] \<Rightarrow> w
      | lastTurn # _ \<Rightarrow>
          if \<not> isFinal lastTurn then updateLastTurn (\<lambda>t. t\<lparr>isFinal := True\<rparr>) w else w)"

definition onGenerationComplete :: "('r, 'c, 'm) world \<Rightarrow> ('r, 'c, 'm) world" where
  "onGenerationComplete w = w"


subsection \<open>Tool calls\<close>

text \<open>
  What \<^verbatim>\<open>onToolCall\<close> uses and the sources do not hold:
  \<^item> \<open>toolRegistry\<close>: the entries of the registry object of \<^verbatim>\<open>lib/tools/tool-registry\<close>,
    \<open>None\<close> for a name that has no entry. A tool implementation takes the arguments
    and the tool context and either returns a result or throws, in both cases with
    its effects on the context done;
  \<^item> \<open>inherited\<close>: what calling a property the registry object inherits from
    \<^verbatim>\<open>Object.prototype\<close> does, except for \<^verbatim>\<open>toString\<close>, which is fixed below;
  \<^item> \<open>stringify_args\<close>: \<^verbatim>\<open>JSON.stringify(fc.args, null, 2)\<close>, on arguments that are JSON
    data, parsed from the message of the server;
  \<^item> \<open>stringify_responses\<close>: \<^verbatim>\<open>JSON.stringify(functionResponses, null, 2)\<close>, on a batch that
    holds whatever the tools returned, and which throws on a value it cannot
    serialise;
  \<^item> \<open>sendToolResponse_fault\<close>: whether \<^verbatim>\<open>client.sendToolResponse\<close> throws on a batch.
\<close>

type_synonym ('a, 'r, 'c) toolImplementation = "'a \<Rightarrow> 'c \<Rightarrow> (exn + 'r toolResponse) \<times> 'c"

record ('a, 'r, 'c) env =
  toolRegistry :: "string \<Rightarrow> ('a, 'r, 'c) toolImplementation option"
  inherited :: "string \<Rightarrow> ('a, 'r, 'c) toolImplementation"
  stringify_args :: "'a \<Rightarrow> string"
  stringify_responses :: "'r functionResponse list \<Rightarrow> exn + string"
  sendToolResponse_fault :: "'r functionResponse list \<Rightarrow> exn option"

text \<open>
  The expression \<^verbatim>\<open>toolRegistry[fc.name]\<close> is a property lookup on an object: it finds
  the entry of that name, and for a name without an entry the property of that name
  which the object inherits from \<^verbatim>\<open>Object.prototype\<close>, if there is one. All of these are
  truthy. \<^verbatim>\<open>Object.prototype.toString\<close> called without a receiver returns the string
  \<^verbatim>\<open>[object Undefined]\<close>.
\<close>

definition Object_prototype_properties :: "string list" where
  "Object_prototype_properties =
     [''constructor'', ''__defineGetter__'', ''__defineSetter__'', ''hasOwnProperty'',
      ''__lookupGetter__'', ''__lookupSetter__'', ''isPrototypeOf'',
      ''propertyIsEnumerable'', ''toString'', ''valueOf'', ''__proto__'',
      ''toLocaleString'']"

definition Object_prototype_toString :: "('a, 'r, 'c) toolImplementation" where
  "Object_prototype_toString args c = (Inr (Text ''[object Undefined]''), c)"

definition toolRegistry_lookup ::
  "('a, 'r, 'c) env \<Rightarrow> string \<Rightarrow> ('a, 'r, 'c) toolImplementation option" where
  "toolRegistry_lookup env n =
     (case toolRegistry env n of
        Some toolImplementation \<Rightarrow> Some toolImplementation
      | None \<Rightarrow>
          if n = ''toString'' then Some Object_prototype_toString
          else if n \<in> set Object_prototype_properties then Some (inherited env n)
          else None)"

definition triggerMessage :: "('a, 'r, 'c) env \<Rightarrow> 'a functionCall \<Rightarrow> string" where
  "triggerMessage env fc =
     ''Triggering function call: **'' @ call_name fc @ ''**'' @ newline @ ''```json''
       @ newline @ stringify_args env (call_args fc) @ newline @ ''```''"

definition unknownToolMessage :: "'a functionCall \<Rightarrow> string" where
  "unknownToolMessage fc = ''Unknown tool called: '' @ call_name fc @ ''.''"

definition errorMessage :: "'a functionCall \<Rightarrow> string" where
  "errorMessage fc = ''Error executing tool '' @ call_name fc @ ''.''"

definition responseMessage :: "string \<Rightarrow> string" where
  "responseMessage json =
     ''Function call response:'' @ newline @ ''```json'' @ newline @ json @ newline @ ''```''"

text \<open>
  The body of the inner \<^verbatim>\<open>try\<close>: look the tool up, run it or report it unknown, and
  build the response to push. \<open>Inl\<close> is an exception on its way to the \<^verbatim>\<open>catch\<close>. An
  invocation is entered in the journal.
\<close>

definition call_try ::
  "('a, 'r, 'c) env \<Rightarrow> 'a functionCall \<Rightarrow> ('r, 'c, 'm) world
     \<Rightarrow> (exn + 'r functionResponse) \<times> ('r, 'c, 'm) world" where
  "call_try env fc w =
     (case toolRegistry_lookup env (call_name fc) of
        Some toolImplementation \<Rightarrow>
          (let w1 = w\<lparr>journal := journal w @ [ToolInvoked (call_name fc)]\<rparr>;
               settled = toolImplementation (call_args fc) (toolState w1);
               w2 = w1\<lparr>toolState := snd settled\<rparr>
           in case fst settled of
                Inl error \<Rightarrow> (Inl error, w2)
              | Inr toolResponse \<Rightarrow>
                  (Inr \<lparr>resp_id = call_id fc, resp_name = call_name fc,
                        resp_result = toolResponse\<rparr>, w2))
      | None \<Rightarrow>
          (Inr \<lparr>resp_id = call_id fc, resp_name = call_name fc,
                resp_result = Text (unknownToolMessage fc)\<rparr>, w))"

text \<open>One iteration of the loop over \<^verbatim>\<open>toolCall.functionCalls\<close>, with its \<^verbatim>\<open>catch\<close>.\<close>

definition process_call ::
  "('a, 'r, 'c) env \<Rightarrow> 'a functionCall
     \<Rightarrow> ('r, 'c, 'm) world \<times> 'r functionResponse list
     \<Rightarrow> ('r, 'c, 'm) world \<times> 'r functionResponse list" where
  "process_call env fc s =
     (let w1 = addTurn \<lparr>turn_role = System, turn_text = triggerMessage env fc,
                        isFinal = True\<rparr> (fst s);
          functionResponses = snd s;
          attempt = call_try env fc w1
      in case fst attempt of
           Inr response \<Rightarrow> (snd attempt, functionResponses @ [response])
         | Inl error \<Rightarrow>
             (addTurn \<lparr>turn_role = System, turn_text = errorMessage fc, isFinal = True\<rparr>
                (snd attempt),
              functionResponses @
                [\<lparr>resp_id = call_id fc, resp_name = call_name fc,
                  resp_result = Text (errorMessage fc)\<rparr>]))"

fun process_calls ::
  "('a, 'r, 'c) env \<Rightarrow> 'a functionCall list
     \<Rightarrow> ('r, 'c, 'm) world \<times> 'r functionResponse list
     \<Rightarrow> ('r, 'c, 'm) world \<times> 'r functionResponse list" where
  "process_calls env [] s = s"
| "process_calls env (fc # fcs) s = process_calls env fcs (process_call env fc s)"

text \<open>
  The body of the outer \<^verbatim>\<open>try\<close>; \<open>Inl\<close> is an exception leaving it. When there are
  responses, the batch is serialised for the transcript before it is sent: if that
  throws, the turn is not appended and \<^verbatim>\<open>client.sendToolResponse\<close> is not reached.
\<close>

definition onToolCall_try ::
  "('a, 'r, 'c) env \<Rightarrow> 'a liveServerToolCall \<Rightarrow> ('r, 'c, 'm) world
     \<Rightarrow> (exn + unit) \<times> ('r, 'c, 'm) world" where
  "onToolCall_try env toolCall w =
     (let s = process_calls env (functionCalls toolCall) (w, []);
          functionResponses = snd s
      in if length functionResponses > 0
         then
           (case stringify_responses env functionResponses of
              Inl error \<Rightarrow> (Inl error, fst s)
            | Inr json \<Rightarrow>
                client_sendToolResponse (sendToolResponse_fault env) functionResponses
                  (addTurn \<lparr>turn_role = System, turn_text = responseMessage json,
                            isFinal = True\<rparr> (fst s)))
         else client_sendToolResponse (sendToolResponse_fault env) functionResponses (fst s))"

text \<open>
  \<^verbatim>\<open>try { body } finally { cleanup }\<close>: the cleanup runs on the state the body leaves,
  whether the body returned or threw, and the outcome of the body is passed on.
\<close>

definition try_finally ::
  "('s \<Rightarrow> (exn + unit) \<times> 's) \<Rightarrow> ('s \<Rightarrow> 's) \<Rightarrow> 's \<Rightarrow> (exn + unit) \<times> 's" where
  "try_finally body cleanup w = (let r = body w in (fst r, cleanup (snd r)))"

text \<open>The handler: the flag goes up, then the body runs under the \<^verbatim>\<open>finally\<close> block
  that takes the flag down.\<close>

definition onToolCall ::
  "('a, 'r, 'c) env \<Rightarrow> 'a liveServerToolCall \<Rightarrow> ('r, 'c, 'm) world
     \<Rightarrow> (exn + unit) \<times> ('r, 'c, 'm) world" where
  "onToolCall env toolCall w =
     try_finally (onToolCall_try env toolCall) (setIsAwaitingFunctionResponse False)
       (setIsAwaitingFunctionResponse True w)"


subsection \<open>Connecting\<close>

definition connect ::
  "(liveConnectConfig \<Rightarrow> exn option) \<Rightarrow> ('r, 'c, 'm) world
     \<Rightarrow> (exn + unit) \<times> ('r, 'c, 'm) world" where
  "connect transport w =
     (case config w of
        None \<Rightarrow> (Inl (Error ''config has not been set''), w)
      | Some cfg \<Rightarrow>
          client_connect transport cfg (client_disconnect (clearMarkers (clearTurns w))))"

definition disconnect :: "('r, 'c, 'm) world \<Rightarrow> ('r, 'c, 'm) world" where
  "disconnect w = setConnected False (client_disconnect w)"


section \<open>Grounded recommendations (\<^verbatim>\<open>fetchAgriculturalRecommendations\<close>)\<close>

subsection \<open>The map camera\<close>

record latLngAltitude =
  lat :: number
  lng :: number
  altitude :: number

record cameraTarget =
  center :: latLngAltitude
  camera_range :: number
  tilt :: number
  heading :: number
  roll :: number

text \<open>The calls a function makes on the map store, in the order it makes them.\<close>

datatype mapStoreCall = SetCameraTarget cameraTarget | SetPreventAutoFrame bool

definition zoomToLocation :: "number \<Rightarrow> number \<Rightarrow> mapStoreCall list" where
  "zoomToLocation latitude longitude =
     [SetCameraTarget
        \<lparr>center = \<lparr>lat = latitude, lng = longitude, altitude = Num 750\<rparr>,
         camera_range = Num 2500, tilt = Num 50, heading = Num 0, roll = Num 0\<rparr>,
      SetPreventAutoFrame True]"

fun is_SetCameraTarget :: "mapStoreCall \<Rightarrow> bool" where
  "is_SetCameraTarget (SetCameraTarget _) = True"
| "is_SetCameraTarget (SetPreventAutoFrame _) = False"

text \<open>The camera-target updates among the calls.\<close>

definition cameraTargetUpdates :: "mapStoreCall list \<Rightarrow> mapStoreCall list" where
  "cameraTargetUpdates calls = filter is_SetCameraTarget calls"

subsection \<open>The parameters\<close>

datatype soilType = Clay | Sandy | Loamy | Silt | Peat

datatype climate = Tropical | Arid | Temperate | Continental | Polar

datatype season = Spring | Summer | Fall | Winter

fun soilType_text :: "soilType \<Rightarrow> string" where
  "soilType_text Clay = ''clay''"
| "soilType_text Sandy = ''sandy''"
| "soilType_text Loamy = ''loamy''"
| "soilType_text Silt = ''silt''"
| "soilType_text Peat = ''peat''"

fun climate_text :: "climate \<Rightarrow> string" where
  "climate_text Tropical = ''tropical''"
| "climate_text Arid = ''arid''"
| "climate_text Temperate = ''temperate''"
| "climate_text Continental = ''continental''"
| "climate_text Polar = ''polar''"

fun season_text :: "season \<Rightarrow> string" where
  "season_text Spring = ''spring''"
| "season_text Summer = ''summer''"
| "season_text Fall = ''fall''"
| "season_text Winter = ''winter''"

text \<open>\<^verbatim>\<open>AgriculturalParameters\<close>: five required fields, five optional ones.\<close>

record agriculturalParameters =
  latitude :: number
  longitude :: number
  soilType :: soilType
  climate :: climate
  season :: season
  rainfall :: "number option"
  temperature :: "number option"
  irrigationAvailable :: "bool option"
  farmSize :: "number option"
  previousCrop :: "string option"

definition AGRICULTURAL_SYS_INSTRUCTIONS :: string where
  "AGRICULTURAL_SYS_INSTRUCTIONS =
     ''You are an expert agricultural advisor AI. Based on the provided location coordinates and agricultural parameters (soil type, climate, season, rainfall, temperature, irrigation, farm size, previous crop), provide detailed crop recommendations. Include:''
     @ newline @ ''1. Top 3-5 recommended crops with rationale''
     @ newline @ ''2. Planting and harvesting timeline''
     @ newline @ ''3. Expected yield estimates''
     @ newline @ ''4. Soil preparation requirements''
     @ newline @ ''5. Water and fertilizer needs''
     @ newline @ ''6. Potential challenges and mitigation strategies''
     @ newline @ ''Format your response in clear sections.''"

subsection \<open>The prompt\<close>

text \<open>
  The template literal, line by line. \<open>numberToString\<close> is JavaScript's rendering of a
  number inside a template literal. The degree sign is the code unit \<open>0xB0\<close>.
\<close>

definition agriculturalPrompt_lines ::
  "(number \<Rightarrow> string) \<Rightarrow> agriculturalParameters \<Rightarrow> string list" where
  "agriculturalPrompt_lines numberToString params =
     [''Location: '' @ numberToString (latitude params) @ '', ''
        @ numberToString (longitude params),
      ''Soil Type: '' @ soilType_text (soilType params),
      ''Climate: '' @ climate_text (climate params),
      ''Season: '' @ season_text (season params),
      (case rainfall params of
         None \<Rightarrow> []
       | Some r \<Rightarrow>
           if truthy_number r then ''Annual Rainfall: '' @ numberToString r @ ''mm'' else []),
      (case temperature params of
         None \<Rightarrow> []
       | Some t \<Rightarrow>
           if truthy_number t
           then ''Average Temperature: '' @ numberToString t @ [CHR 0xB0] @ ''C'' else []),
      (case irrigationAvailable params of
         None \<Rightarrow> []
       | Some b \<Rightarrow> ''Irrigation Available: '' @ (if b then ''Yes'' else ''No'')),
      (case farmSize params of
         None \<Rightarrow> []
       | Some f \<Rightarrow>
           if truthy_number f then ''Farm Size: '' @ numberToString f @ '' hectares'' else []),
      (case previousCrop params of
         None \<Rightarrow> []
       | Some c \<Rightarrow> if truthy_string c then ''Previous Crop: '' @ c else []),
      [],
      ''Please provide detailed crop recommendations for this agricultural location.'']"

fun join_lines :: "string list \<Rightarrow> string" where
  "join_lines [] = []"
| "join_lines [l] = l"
| "join_lines (l # ls) = l @ newline @ join_lines ls"

definition agriculturalPrompt :: "(number \<Rightarrow> string) \<Rightarrow> agriculturalParameters \<Rightarrow> string" where
  "agriculturalPrompt numberToString params =
     join_lines (agriculturalPrompt_lines numberToString params)"

subsection \<open>The request and the response\<close>

record request =
  endpoint :: string
  x_goog_api_key :: string
  contents_text :: string
  system_instruction_text :: string
  enable_widget :: bool
  thinkingBudget :: nat
  latLng :: "number \<times> number"

text \<open>
  A response as \<^verbatim>\<open>fetch\<close> resolves with: the status and the body received. \<^verbatim>\<open>response.ok\<close>
  is true for the statuses 200 to 299; \<^verbatim>\<open>response.text()\<close> is the body.
\<close>

record response =
  status :: nat
  body :: string

definition ok :: "response \<Rightarrow> bool" where
  "ok r = (200 \<le> status r \<and> status r \<le> 299)"

text \<open>
  What the function takes from its surroundings: the credential read from the process
  environment (\<open>None\<close> when the variable is unset), the rendering of numbers, \<^verbatim>\<open>fetch\<close>
  (which rejects on a network failure) and the JSON parser behind \<^verbatim>\<open>response.json()\<close>
  (which rejects on a body that is not JSON).
\<close>

record 'j http_env =
  API_KEY :: "string option"
  numberToString :: "number \<Rightarrow> string"
  fetch :: "request \<Rightarrow> exn + response"
  json :: "string \<Rightarrow> exn + 'j"

definition agriculturalRequest :: "'j http_env \<Rightarrow> string \<Rightarrow> agriculturalParameters \<Rightarrow> request" where
  "agriculturalRequest henv key params =
     \<lparr>endpoint = ''https://generativelanguage.googleapis.com/v1beta/models/gemini-2.5-flash:generateContent'',
      x_goog_api_key = key,
      contents_text = agriculturalPrompt (numberToString henv) params,
      system_instruction_text = AGRICULTURAL_SYS_INSTRUCTIONS,
      enable_widget = True,
      thinkingBudget = 0,
      latLng = (latitude params, longitude params)\<rparr>"

definition requestFailedMessage :: "response \<Rightarrow> string" where
  "requestFailedMessage r =
     ''API request failed with status '' @ decimal (status r) @ '': '' @ body r"

text \<open>
  The result and the calls made on the map store. The \<^verbatim>\<open>catch\<close> block logs and throws
  the error it caught again.
\<close>

definition fetchAgriculturalRecommendations ::
  "'j http_env \<Rightarrow> agriculturalParameters \<Rightarrow> (exn + 'j) \<times> mapStoreCall list" where
  "fetchAgriculturalRecommendations henv params =
     (case API_KEY henv of
        None \<Rightarrow> (Inl (Error ''Missing required environment variable: API_KEY''), [])
      | Some key \<Rightarrow>
          if \<not> truthy_string key
          then (Inl (Error ''Missing required environment variable: API_KEY''), [])
          else
            (case fetch henv (agriculturalRequest henv key params) of
               Inl error \<Rightarrow> (Inl error, [])
             | Inr response \<Rightarrow>
                 if \<not> ok response
                 then (Inl (Error (requestFailedMessage response)), [])
                 else
                   (case json henv (body response) of
                      Inl error \<Rightarrow> (Inl error, [])
                    | Inr data \<Rightarrow>
                        (Inr data, zoomToLocation (latitude params) (longitude params)))))"


section \<open>The agricultural form\<close>

text \<open>The form's initial \<^verbatim>\<open>formData\<close>.\<close>

definition initial_formData :: agriculturalParameters where
  "initial_formData =
     \<lparr>latitude = Num 0, longitude = Num 0, soilType = Loamy, climate = Temperate,
      season = Spring, rainfall = None, temperature = None, irrigationAvailable = None,
      farmSize = None, previousCrop = None\<rparr>"

text \<open>
  The \<^verbatim>\<open>onChange\<close> handlers of the inputs, each \<^verbatim>\<open>handleInputChange(field, value)\<close> on the
  text of the input. \<open>parseFloat\<close> is JavaScript's \<^verbatim>\<open>parseFloat\<close>.
\<close>

definition onChange_latitude ::
  "(string \<Rightarrow> number) \<Rightarrow> string \<Rightarrow> agriculturalParameters \<Rightarrow> agriculturalParameters" where
  "onChange_latitude parseFloat v formData =
     formData\<lparr>latitude :=
       (if truthy_number (parseFloat v) then parseFloat v else Num 0)\<rparr>"

definition onChange_longitude ::
  "(string \<Rightarrow> number) \<Rightarrow> string \<Rightarrow> agriculturalParameters \<Rightarrow> agriculturalParameters" where
  "onChange_longitude parseFloat v formData =
     formData\<lparr>longitude :=
       (if truthy_number (parseFloat v) then parseFloat v else Num 0)\<rparr>"

definition onChange_rainfall ::
  "(string \<Rightarrow> number) \<Rightarrow> string \<Rightarrow> agriculturalParameters \<Rightarrow> agriculturalParameters" where
  "onChange_rainfall parseFloat v formData =
     formData\<lparr>rainfall := number_or_undefined (parseFloat v)\<rparr>"

definition onChange_temperature ::
  "(string \<Rightarrow> number) \<Rightarrow> string \<Rightarrow> agriculturalParameters \<Rightarrow> agriculturalParameters" where
  "onChange_temperature parseFloat v formData =
     formData\<lparr>temperature := number_or_undefined (parseFloat v)\<rparr>"

definition onChange_farmSize ::
  "(string \<Rightarrow> number) \<Rightarrow> string \<Rightarrow> agriculturalParameters \<Rightarrow> agriculturalParameters" where
  "onChange_farmSize parseFloat v formData =
     formData\<lparr>farmSize := number_or_undefined (parseFloat v)\<rparr>"

definition onChange_irrigationAvailable ::
  "bool \<Rightarrow> agriculturalParameters \<Rightarrow> agriculturalParameters" where
  "onChange_irrigationAvailable checked formData =
     formData\<lparr>irrigationAvailable := Some checked\<rparr>"

definition onChange_previousCrop ::
  "string \<Rightarrow> agriculturalParameters \<Rightarrow> agriculturalParameters" where
  "onChange_previousCrop v formData =
     formData\<lparr>previousCrop := string_or_undefined v\<rparr>"


section \<open>Example inputs\<close>

text \<open>
  A registry with one tool that answers and one that throws, a session in progress,
  and a recommendation endpoint stubbed to answer with a given status, body and
  outcome of parsing the body.
\<close>

definition example_env :: "(string, unit, nat) env" where
  "example_env =
     \<lparr>toolRegistry = (\<lambda>name.
        if name = ''agriculturalRecommendation''
        then Some (\<lambda>args c. (Inr (Text ''Plant maize.''), Suc c))
        else if name = ''failingTool''
        then Some (\<lambda>args c. (Inl (Error ''quota exceeded''), c))
        else None),
      inherited = (\<lambda>name args c. (Inl (Error ''TypeError''), c)),
      stringify_args = (\<lambda>args. args),
      stringify_responses = (\<lambda>rs. Inr ''[...]''),
      sendToolResponse_fault = (\<lambda>rs. None)\<rparr>"

definition example_call :: "string \<Rightarrow> string \<Rightarrow> string functionCall" where
  "example_call i n = \<lparr>call_id = i, call_name = n, call_args = ''{}''\<rparr>"

text \<open>
  A tool whose result refers to itself, which \<^verbatim>\<open>JSON.stringify\<close> cannot serialise: it
  throws on every batch that holds such a result.
\<close>

fun has_structured :: "unit functionResponse list \<Rightarrow> bool" where
  "has_structured [] = False"
| "has_structured (r # rs) =
     (case resp_result r of Structured x \<Rightarrow> True | Text t \<Rightarrow> has_structured rs)"

definition circular_env :: "(string, unit, nat) env" where
  "circular_env =
     example_env
       \<lparr>toolRegistry := (\<lambda>name.
          if name = ''agriculturalRecommendation''
          then Some (\<lambda>args c. (Inr (Structured ()), Suc c))
          else None),
        stringify_responses := (\<lambda>rs.
          if has_structured rs then Inl (Error ''Converting circular structure to JSON'')
          else Inr ''[...]'')\<rparr>"

definition example_world :: "(unit, nat, string) world" where
  "example_world =
     \<lparr>turns = [\<lparr>turn_role = User, turn_text = ''What should I plant?'', isFinal = True\<rparr>],
      isAwaitingFunctionResponse = False, markers = [''farm''], connected = True,
      config = Some [(''model'', ''live'')], sessions = [[(''model'', ''live'')]],
      journal = [SendRealtimeText ''hello''], toolState = 0\<rparr>"

definition stubbed_env :: "nat \<Rightarrow> string \<Rightarrow> exn + string \<Rightarrow> string http_env" where
  "stubbed_env st b parsed =
     \<lparr>API_KEY = Some ''test-key'', numberToString = (\<lambda>n. ''1''),
      fetch = (\<lambda>req. Inr \<lparr>status = st, body = b\<rparr>), json = (\<lambda>text. parsed)\<rparr>"

definition example_params :: agriculturalParameters where
  "example_params = initial_formData\<lparr>latitude := Num 12, longitude := Num 77\<rparr>"



section \<open>Properties of the tool-call loop\<close>

text \<open>
  The loop appends one response per call, with the id and name of its call, whatever
  the tools do; in the journal it leaves only the invocations of the tools it found.
\<close>

lemma toolResponsesSent_append:
  "toolResponsesSent (xs @ ys) = toolResponsesSent xs @ toolResponsesSent ys"
  by (induction xs rule: toolResponsesSent.induct) simp_all

lemma toolResponsesSent_ToolInvoked:
  "toolResponsesSent (map ToolInvoked names) = []"
  by (induction names) simp_all

lemma call_try_id_name:
  "call_try env fc w = (Inr r, w') \<Longrightarrow> resp_id r = call_id fc \<and> resp_name r = call_name fc"
  by (auto simp: call_try_def Let_def split: option.splits sum.splits)


lemma call_try_journal:
  "\<exists>names. journal (snd (call_try env fc w)) = journal w @ map ToolInvoked names"
proof (cases "toolRegistry_lookup env (call_name fc)")
  case None
  then have "journal (snd (call_try env fc w)) = journal w @ map ToolInvoked []"
    by (simp add: call_try_def)
  then show ?thesis by blast
next
  case (Some t)
  then have "journal (snd (call_try env fc w)) = journal w @ map ToolInvoked [call_name fc]"
    by (simp add: call_try_def Let_def split: sum.splits)
  then show ?thesis by blast
qed

lemma process_call_snd:
  "\<exists>r. snd (process_call env fc s) = snd s @ [r]
      \<and> resp_id r = call_id fc \<and> resp_name r = call_name fc"
proof (cases "fst (call_try env fc
    (addTurn \<lparr>turn_role = System, turn_text = triggerMessage env fc, isFinal = True\<rparr> (fst s)))")
  case (Inl e)
  then show ?thesis
    by (simp add: process_call_def Let_def)
next
  case (Inr r)
  then have "call_try env fc
      (addTurn \<lparr>turn_role = System, turn_text = triggerMessage env fc, isFinal = True\<rparr> (fst s))
      = (Inr r, snd (call_try env fc
      (addTurn \<lparr>turn_role = System, turn_text = triggerMessage env fc, isFinal = True\<rparr> (fst s))))"
    by (metis prod.collapse)
  from call_try_id_name [OF this] Inr show ?thesis
    by (simp add: process_call_def Let_def)
qed

lemma process_call_journal:
  "\<exists>names. journal (fst (process_call env fc s)) = journal (fst s) @ map ToolInvoked names"
proof -
  let ?w1 = "addTurn \<lparr>turn_role = System, turn_text = triggerMessage env fc, isFinal = True\<rparr>
               (fst s)"
  obtain names where "journal (snd (call_try env fc ?w1)) = journal ?w1 @ map ToolInvoked names"
    using call_try_journal by blast
  then have "journal (fst (process_call env fc s)) = journal (fst s) @ map ToolInvoked names"
    by (simp add: process_call_def Let_def addTurn_def split: sum.splits)
  then show ?thesis by blast
qed

lemma process_calls_journal:
  "\<exists>names. journal (fst (process_calls env fcs s)) = journal (fst s) @ map ToolInvoked names"
proof (induction fcs arbitrary: s)
  case Nil
  have "journal (fst (process_calls env [] s)) = journal (fst s) @ map ToolInvoked []"
    by simp
  then show ?case by blast
next
  case (Cons fc fcs)
  obtain ns where ns: "journal (fst (process_call env fc s)) = journal (fst s) @ map ToolInvoked ns"
    using process_call_journal by blast
  obtain ms where "journal (fst (process_calls env fcs (process_call env fc s)))
      = journal (fst (process_call env fc s)) @ map ToolInvoked ms"
    using Cons.IH by blast
  with ns have "journal (fst (process_calls env (fc # fcs) s))
      = journal (fst s) @ map ToolInvoked (ns @ ms)"
    by simp
  then show ?case by blast
qed

lemma process_calls_append:
  "process_calls env (xs @ ys) s = process_calls env ys (process_calls env xs s)"
  by (induction xs arbitrary: s) simp_all

lemma process_calls_snd:
  "\<exists>rs. snd (process_calls env fcs s) = snd s @ rs
      \<and> length rs = length fcs \<and> map resp_id rs = map call_id fcs
      \<and> map resp_name rs = map call_name fcs"
proof (induction fcs arbitrary: s)
  case Nil
  then show ?case by simp
next
  case (Cons fc fcs)
  obtain r where r: "snd (process_call env fc s) = snd s @ [r]" "resp_id r = call_id fc"
    "resp_name r = call_name fc"
    using process_call_snd by blast
  obtain rs where rs: "snd (process_calls env fcs (process_call env fc s))
      = snd (process_call env fc s) @ rs" "length rs = length fcs"
    "map resp_id rs = map call_id fcs" "map resp_name rs = map call_name fcs"
    using Cons.IH by blast
  have "snd (process_calls env (fc # fcs) s) = snd s @ (r # rs)
      \<and> length (r # rs) = length (fc # fcs) \<and> map resp_id (r # rs) = map call_id (fc # fcs)
      \<and> map resp_name (r # rs) = map call_name (fc # fcs)"
    using r rs by simp
  then show ?case by blast
qed

lemma process_calls_length:
  "length (snd (process_calls env fcs s)) = length (snd s) + length fcs"
  using process_calls_snd [of env fcs s] by auto

text \<open>What the body of the outer try does to the journal, and how it ends.\<close>

lemma onToolCall_try_journal:
  "\<exists>names. journal (snd (onToolCall_try env toolCall w))
     = journal w @ map ToolInvoked names @
       map SendToolResponse
         (if snd (process_calls env (functionCalls toolCall) (w, [])) \<noteq> []
             \<and> isl (stringify_responses env
                      (snd (process_calls env (functionCalls toolCall) (w, []))))
          then [] else [snd (process_calls env (functionCalls toolCall) (w, []))])"
proof -
  let ?s = "process_calls env (functionCalls toolCall) (w, [])"
  obtain names where names: "journal (fst ?s) = journal w @ map ToolInvoked names"
    using process_calls_journal [of env "functionCalls toolCall" "(w, [])"] by auto
  have "journal (snd (onToolCall_try env toolCall w))
     = journal (fst ?s) @
       map SendToolResponse
         (if snd ?s \<noteq> [] \<and> isl (stringify_responses env (snd ?s)) then [] else [snd ?s])"
    by (cases "stringify_responses env (snd ?s)")
      (simp_all add: onToolCall_try_def Let_def client_sendToolResponse_def addTurn_def
        split: option.splits)
  with names show ?thesis by auto
qed

lemma onToolCall_try_outcome:
  "fst (onToolCall_try env toolCall w)
     = (if snd (process_calls env (functionCalls toolCall) (w, [])) \<noteq> []
           \<and> isl (stringify_responses env
                    (snd (process_calls env (functionCalls toolCall) (w, []))))
        then Inl (projl (stringify_responses env
                    (snd (process_calls env (functionCalls toolCall) (w, [])))))
        else (case sendToolResponse_fault env
                    (snd (process_calls env (functionCalls toolCall) (w, []))) of
                None \<Rightarrow> Inr () | Some e \<Rightarrow> Inl e))"
  by (cases "stringify_responses env (snd (process_calls env (functionCalls toolCall) (w, [])))")
    (simp_all add: onToolCall_try_def Let_def client_sendToolResponse_def
      split: option.splits)

lemma map_pair_zip:
  "map (\<lambda>x. (f x, g x)) xs = zip (map f xs) (map g xs)"
  by (induction xs) simp_all

lemma toolResponsesSent_SendToolResponse:
  "toolResponsesSent (map SendToolResponse bs) = bs"
  by (induction bs) simp_all

lemma onToolCall_journal:
  "\<exists>names. journal (snd (onToolCall env toolCall w))
     = journal w @ SetIsAwaiting True # map ToolInvoked names @
       map SendToolResponse
         (if snd (process_calls env (functionCalls toolCall)
                   (setIsAwaitingFunctionResponse True w, [])) \<noteq> []
             \<and> isl (stringify_responses env
                      (snd (process_calls env (functionCalls toolCall)
                             (setIsAwaitingFunctionResponse True w, []))))
          then []
          else [snd (process_calls env (functionCalls toolCall)
                      (setIsAwaitingFunctionResponse True w, []))])
       @ [SetIsAwaiting False]"
proof -
  let ?w1 = "setIsAwaitingFunctionResponse True w"
  obtain names where "journal (snd (onToolCall_try env toolCall ?w1))
     = journal ?w1 @ map ToolInvoked names @
       map SendToolResponse
         (if snd (process_calls env (functionCalls toolCall) (?w1, [])) \<noteq> []
             \<and> isl (stringify_responses env
                      (snd (process_calls env (functionCalls toolCall) (?w1, []))))
          then [] else [snd (process_calls env (functionCalls toolCall) (?w1, []))])"
    using onToolCall_try_journal by blast
  then have "journal (snd (onToolCall env toolCall w))
     = journal w @ SetIsAwaiting True # map ToolInvoked names @
       map SendToolResponse
         (if snd (process_calls env (functionCalls toolCall) (?w1, [])) \<noteq> []
             \<and> isl (stringify_responses env
                      (snd (process_calls env (functionCalls toolCall) (?w1, []))))
          then [] else [snd (process_calls env (functionCalls toolCall) (?w1, []))])
       @ [SetIsAwaiting False]"
    by (simp add: onToolCall_def try_finally_def Let_def setIsAwaitingFunctionResponse_def)
  then show ?thesis by blast
qed

lemma onToolCall_sent:
  "toolResponsesSent (journal (snd (onToolCall env toolCall w)))
     = toolResponsesSent (journal w) @
         (if snd (process_calls env (functionCalls toolCall)
                   (setIsAwaitingFunctionResponse True w, [])) \<noteq> []
             \<and> isl (stringify_responses env
                      (snd (process_calls env (functionCalls toolCall)
                             (setIsAwaitingFunctionResponse True w, []))))
          then []
          else [snd (process_calls env (functionCalls toolCall)
                      (setIsAwaitingFunctionResponse True w, []))])"
proof -
  obtain names where "journal (snd (onToolCall env toolCall w))
     = journal w @ SetIsAwaiting True # map ToolInvoked names @
       map SendToolResponse
         (if snd (process_calls env (functionCalls toolCall)
                   (setIsAwaitingFunctionResponse True w, [])) \<noteq> []
             \<and> isl (stringify_responses env
                      (snd (process_calls env (functionCalls toolCall)
                             (setIsAwaitingFunctionResponse True w, []))))
          then []
          else [snd (process_calls env (functionCalls toolCall)
                      (setIsAwaitingFunctionResponse True w, []))])
       @ [SetIsAwaiting False]"
    using onToolCall_journal by blast
  then show ?thesis
    by (simp add: toolResponsesSent_append toolResponsesSent_ToolInvoked
        toolResponsesSent_SendToolResponse)
qed

lemma onToolCall_outcome:
  "fst (onToolCall env toolCall w)
     = (if snd (process_calls env (functionCalls toolCall)
                 (setIsAwaitingFunctionResponse True w, [])) \<noteq> []
           \<and> isl (stringify_responses env
                    (snd (process_calls env (functionCalls toolCall)
                           (setIsAwaitingFunctionResponse True w, []))))
        then Inl (projl (stringify_responses env
                    (snd (process_calls env (functionCalls toolCall)
                           (setIsAwaitingFunctionResponse True w, [])))))
        else (case sendToolResponse_fault env
                    (snd (process_calls env (functionCalls toolCall)
                           (setIsAwaitingFunctionResponse True w, []))) of
                None \<Rightarrow> Inr () | Some e \<Rightarrow> Inl e))"
  using onToolCall_try_outcome [of env toolCall "setIsAwaitingFunctionResponse True w"]
  by (simp add: onToolCall_def try_finally_def Let_def)

text \<open>The lookup, for a name that has an entry and for a name that resolves to nothing.\<close>

lemmas run_defs =
  onToolCall_def try_finally_def onToolCall_try_def process_call_def call_try_def
  toolRegistry_lookup_def Object_prototype_properties_def Object_prototype_toString_def
  client_sendToolResponse_def setIsAwaitingFunctionResponse_def addTurn_def Let_def
  example_call_def initial_world_def


lemma toolRegistry_lookup_undefined:
  "toolRegistry env n = None \<Longrightarrow> n \<notin> set Object_prototype_properties
     \<Longrightarrow> toolRegistry_lookup env n = None"
  by (auto simp: toolRegistry_lookup_def Object_prototype_properties_def)

lemma process_call_unknown:
  assumes "toolRegistry env (call_name fc) = None"
    and "call_name fc \<notin> set Object_prototype_properties"
  shows "process_call env fc s =
           (addTurn \<lparr>turn_role = System, turn_text = triggerMessage env fc, isFinal = True\<rparr>
              (fst s),
            snd s @ [\<lparr>resp_id = call_id fc, resp_name = call_name fc,
                      resp_result = Text (''Unknown tool called: '' @ call_name fc @ ''.'')\<rparr>])"
  using toolRegistry_lookup_undefined [OF assms]
  by (simp add: process_call_def call_try_def Let_def unknownToolMessage_def)

lemma decimal_503: "decimal 503 = ''503''"
  by code_simp


section \<open>The claims\<close>

text \<open>
  C1, as amended. For a tool-call batch of N function calls there is a batch of N
  responses whose ids are the ids of the calls, each once and in the order of the
  calls, and so are the \<^verbatim>\<open>{id, name}\<close> pairs, however many tool implementations throw.
  If N is 0 or \<^verbatim>\<open>JSON.stringify\<close> serialises that batch, the handler calls
  \<^verbatim>\<open>sendToolResponse\<close> exactly once, with that batch, and ends the way that call ends.
  If \<^verbatim>\<open>JSON.stringify\<close> throws on the batch, \<^verbatim>\<open>sendToolResponse\<close> is not called and the
  exception leaves the handler.
\<close>

theorem onToolCall_sends_the_batch_unless_serialising_throws:
  "\<exists>rs. length rs = length (functionCalls toolCall)
      \<and> map resp_id rs = map call_id (functionCalls toolCall)
      \<and> map (\<lambda>r. (resp_id r, resp_name r)) rs
          = map (\<lambda>fc. (call_id fc, call_name fc)) (functionCalls toolCall)
      \<and> toolResponsesSent (journal (snd (onToolCall env toolCall w)))
          = toolResponsesSent (journal w) @
              (if rs \<noteq> [] \<and> isl (stringify_responses env rs) then [] else [rs])
      \<and> fst (onToolCall env toolCall w)
          = (if rs \<noteq> [] \<and> isl (stringify_responses env rs)
             then Inl (projl (stringify_responses env rs))
             else (case sendToolResponse_fault env rs of None \<Rightarrow> Inr () | Some e \<Rightarrow> Inl e))"
proof -
  let ?rs = "snd (process_calls env (functionCalls toolCall)
                   (setIsAwaitingFunctionResponse True w, []))"
  obtain rs' where rs': "?rs = [] @ rs'" "length rs' = length (functionCalls toolCall)"
    "map resp_id rs' = map call_id (functionCalls toolCall)"
    "map resp_name rs' = map call_name (functionCalls toolCall)"
    using process_calls_snd [of env "functionCalls toolCall"
        "(setIsAwaitingFunctionResponse True w, [])"] by auto
  have len: "length ?rs = length (functionCalls toolCall)"
    and ids: "map resp_id ?rs = map call_id (functionCalls toolCall)"
    and names: "map resp_name ?rs = map call_name (functionCalls toolCall)"
    using rs' by simp_all
  have pairs: "map (\<lambda>r. (resp_id r, resp_name r)) ?rs
      = map (\<lambda>fc. (call_id fc, call_name fc)) (functionCalls toolCall)"
    by (simp only: map_pair_zip ids names)
  from len ids pairs onToolCall_sent [of env toolCall w] onToolCall_outcome [of env toolCall w]
  show ?thesis by blast
qed

text \<open>A batch of three calls, the second of which throws: one send, of three responses.\<close>

theorem onToolCall_sends_the_batch_unless_serialising_throws_witness:
  "(\<exists>rs. toolResponsesSent (journal (snd (onToolCall example_env
             \<lparr>functionCalls = [example_call ''1'' ''agriculturalRecommendation'',
                               example_call ''2'' ''failingTool'',
                               example_call ''3'' ''noSuchTool'']\<rparr>
             (initial_world 0 :: (unit, nat, unit) world)))) = [rs]
        \<and> length rs = 3 \<and> map resp_id rs = [''1'', ''2'', ''3''])
   \<and> fst (onToolCall example_env
             \<lparr>functionCalls = [example_call ''1'' ''agriculturalRecommendation'',
                               example_call ''2'' ''failingTool'',
                               example_call ''3'' ''noSuchTool'']\<rparr>
             (initial_world 0 :: (unit, nat, unit) world)) = Inr ()"
proof -
  have total: "\<not> isl (stringify_responses example_env rs)" for rs
    by (simp add: example_env_def)
  have sends: "sendToolResponse_fault example_env rs = None" for rs
    by (simp add: example_env_def)
  from onToolCall_sends_the_batch_unless_serialising_throws
         [of "\<lparr>functionCalls = [example_call ''1'' ''agriculturalRecommendation'',
                               example_call ''2'' ''failingTool'',
                               example_call ''3'' ''noSuchTool'']\<rparr>"
             example_env "initial_world 0 :: (unit, nat, unit) world"]
  show ?thesis
    by (auto simp: total sends example_call_def initial_world_def numeral_3_eq_3)
qed

text \<open>
  A batch of one call whose tool returns a result that cannot be serialised: the
  handler ends with the exception of \<^verbatim>\<open>JSON.stringify\<close> and nothing is sent.
\<close>

theorem serialising_throws_nothing_sent:
  "toolResponsesSent (journal (snd (onToolCall circular_env
      \<lparr>functionCalls = [example_call ''1'' ''agriculturalRecommendation'']\<rparr>
      (initial_world 0 :: (unit, nat, unit) world)))) = []
   \<and> fst (onToolCall circular_env
      \<lparr>functionCalls = [example_call ''1'' ''agriculturalRecommendation'']\<rparr>
      (initial_world 0 :: (unit, nat, unit) world))
     = Inl (Error ''Converting circular structure to JSON'')"
  by (simp add: run_defs circular_env_def example_env_def)



text \<open>
  C3, as amended. Let the name of a call have no entry in the registry and not be the
  name of a property inherited from \<^verbatim>\<open>Object.prototype\<close>, so that the lookup is
  \<^verbatim>\<open>undefined\<close>. Then the iteration appends only the turn announcing the call and
  pushes a response with the id and name of the call whose result is the string
  \<^verbatim>\<open>Unknown tool called: <name>.\<close>, which contains the name; no tool is invoked and
  nothing is thrown. That response stands at the position of the call in the batch of
  the handler. The handler sends the batch unless \<^verbatim>\<open>JSON.stringify\<close> throws on it, and
  it ends with the exception of \<^verbatim>\<open>JSON.stringify\<close> or of \<^verbatim>\<open>sendToolResponse\<close> when one
  of them throws; when neither throws, it returns normally.
\<close>

theorem unknown_tool_is_answered_and_raises_nothing:
  assumes no_entry: "toolRegistry env (call_name fc) = None"
    and not_inherited: "call_name fc \<notin> set Object_prototype_properties"
  shows "process_call env fc s =
           (addTurn \<lparr>turn_role = System, turn_text = triggerMessage env fc, isFinal = True\<rparr>
              (fst s),
            snd s @ [\<lparr>resp_id = call_id fc, resp_name = call_name fc,
                      resp_result = Text (''Unknown tool called: '' @ call_name fc @ ''.'')\<rparr>])
       \<and> (\<exists>rs. rs ! length before =
                 \<lparr>resp_id = call_id fc, resp_name = call_name fc,
                  resp_result = Text (''Unknown tool called: '' @ call_name fc @ ''.'')\<rparr>
             \<and> length rs = length before + 1 + length after
             \<and> toolResponsesSent
                  (journal (snd (onToolCall env \<lparr>functionCalls = before @ fc # after\<rparr> w)))
                 = toolResponsesSent (journal w) @
                     (if isl (stringify_responses env rs) then [] else [rs])
             \<and> fst (onToolCall env \<lparr>functionCalls = before @ fc # after\<rparr> w)
                 = (if isl (stringify_responses env rs)
                    then Inl (projl (stringify_responses env rs))
                    else (case sendToolResponse_fault env rs of
                            None \<Rightarrow> Inr () | Some e \<Rightarrow> Inl e)))
       \<and> ((\<forall>rs. \<not> isl (stringify_responses env rs))
            \<and> (\<forall>rs. sendToolResponse_fault env rs = None)
          \<longrightarrow> fst (onToolCall env \<lparr>functionCalls = before @ fc # after\<rparr> w) = Inr ())"
proof -
  let ?s0 = "(setIsAwaitingFunctionResponse True w, [])"
  let ?tc = "\<lparr>functionCalls = before @ fc # after\<rparr>"
  let ?answer = "\<lparr>resp_id = call_id fc, resp_name = call_name fc,
                  resp_result = Text (''Unknown tool called: '' @ call_name fc @ ''.'')\<rparr>"
  note step = process_call_unknown [OF no_entry not_inherited]
  let ?s1 = "process_calls env before ?s0"
  let ?rs = "snd (process_calls env (before @ fc # after) ?s0)"
  obtain rs' where rs': "snd (process_calls env after (process_call env fc ?s1))
      = snd (process_call env fc ?s1) @ rs'" "length rs' = length after"
    using process_calls_snd by blast
  have whole: "?rs = snd ?s1 @ ?answer # rs'"
    using rs' step [of ?s1] by (simp add: process_calls_append)
  have len1: "length (snd ?s1) = length before"
    by (simp add: process_calls_length)
  have at: "?rs ! length before = ?answer"
    using whole len1 by (simp add: nth_append)
  have len: "length ?rs = length before + 1 + length after"
    using whole len1 rs' by simp
  have ne: "?rs \<noteq> []"
    using whole by simp
  have sent: "toolResponsesSent (journal (snd (onToolCall env ?tc w)))
      = toolResponsesSent (journal w) @ (if isl (stringify_responses env ?rs) then [] else [?rs])"
    using onToolCall_sent [of env ?tc w] ne by simp
  have out: "fst (onToolCall env ?tc w)
      = (if isl (stringify_responses env ?rs) then Inl (projl (stringify_responses env ?rs))
         else (case sendToolResponse_fault env ?rs of None \<Rightarrow> Inr () | Some e \<Rightarrow> Inl e))"
    using onToolCall_outcome [of env ?tc w] ne by simp
  have normal: "(\<forall>rs. \<not> isl (stringify_responses env rs))
            \<and> (\<forall>rs. sendToolResponse_fault env rs = None)
          \<longrightarrow> fst (onToolCall env ?tc w) = Inr ()"
    using out by simp
  from step [of s] at len sent out normal show ?thesis by blast
qed

theorem unknown_tool_is_answered_and_raises_nothing_witness:
  "fst (onToolCall example_env
          \<lparr>functionCalls =
             [example_call ''1'' ''agriculturalRecommendation''] @
             example_call ''3'' ''noSuchTool'' # []\<rparr>
          (initial_world 0 :: (unit, nat, unit) world)) = Inr ()
   \<and> process_call example_env (example_call ''3'' ''noSuchTool'')
        (initial_world 0 :: (unit, nat, unit) world, [])
      = (addTurn \<lparr>turn_role = System,
                  turn_text = triggerMessage example_env (example_call ''3'' ''noSuchTool''),
                  isFinal = True\<rparr> (initial_world 0),
         [\<lparr>resp_id = ''3'', resp_name = ''noSuchTool'',
           resp_result = Text ''Unknown tool called: noSuchTool.''\<rparr>])"
proof -
  let ?fc = "example_call ''3'' ''noSuchTool''"
  have no_entry: "toolRegistry example_env (call_name ?fc) = None"
    by (simp add: example_env_def example_call_def)
  have not_inherited: "call_name ?fc \<notin> set Object_prototype_properties"
    by (simp add: example_call_def Object_prototype_properties_def)
  have total: "(\<forall>rs. \<not> isl (stringify_responses example_env rs))
      \<and> (\<forall>rs. sendToolResponse_fault example_env rs = None)"
    by (simp add: example_env_def)
  note inst = unknown_tool_is_answered_and_raises_nothing
         [OF no_entry not_inherited,
          of "(initial_world 0 :: (unit, nat, unit) world, [])"
            "[example_call ''1'' ''agriculturalRecommendation'']" "[]"
            "initial_world 0 :: (unit, nat, unit) world"]
  from inst [THEN conjunct1] inst [THEN conjunct2, THEN conjunct2, rule_format, OF total]
  show ?thesis
    by (simp add: example_call_def)
qed

text \<open>
  A batch with one unknown tool whose send throws: the exception leaves the handler.
  And a call named \<^verbatim>\<open>toString\<close>, which has no entry in the registry: the response sent
  for it does not contain the name.
\<close>

theorem unknown_tool_exception_and_inherited_name:
  "fst (onToolCall (example_env\<lparr>sendToolResponse_fault := (\<lambda>rs. Some (Error ''socket closed''))\<rparr>)
          \<lparr>functionCalls = [example_call ''3'' ''noSuchTool'']\<rparr>
          (initial_world 0 :: (unit, nat, unit) world))
     = Inl (Error ''socket closed'')
   \<and> toolRegistry example_env ''toString'' = None
   \<and> toolResponsesSent (journal (snd (onToolCall example_env
          \<lparr>functionCalls = [example_call ''7'' ''toString'']\<rparr>
          (initial_world 0 :: (unit, nat, unit) world))))
     = [[\<lparr>resp_id = ''7'', resp_name = ''toString'',
          resp_result = Text ''[object Undefined]''\<rparr>]]"
  by (simp add: run_defs example_env_def)

text \<open>
  C4. Whatever the registry, the serialiser and the client do, the handler first gives
  the awaiting flag the value true and last gives it the value false: everything else
  it enters in the journal (the tools it invokes, the batch it sends, if it gets that
  far) lies between the two, and the flag is given no other value in between. The flag
  is down in the state the handler leaves, whether it returns or throws.
\<close>

theorem awaiting_flag_raised_first_lowered_last:
  "\<exists>names sends. journal (snd (onToolCall env toolCall w))
        = journal w @ SetIsAwaiting True # map ToolInvoked names
            @ map SendToolResponse sends @ [SetIsAwaiting False]
      \<and> length sends \<le> 1
      \<and> \<not> isAwaitingFunctionResponse (snd (onToolCall env toolCall w))"
proof -
  let ?rs = "snd (process_calls env (functionCalls toolCall)
                   (setIsAwaitingFunctionResponse True w, []))"
  let ?sends = "if ?rs \<noteq> [] \<and> isl (stringify_responses env ?rs) then [] else [?rs]"
  obtain names where j: "journal (snd (onToolCall env toolCall w))
        = journal w @ SetIsAwaiting True # map ToolInvoked names
            @ map SendToolResponse ?sends @ [SetIsAwaiting False]"
    using onToolCall_journal [of env toolCall w] by blast
  have l: "length ?sends \<le> 1"
    by simp
  have d: "\<not> isAwaitingFunctionResponse (snd (onToolCall env toolCall w))"
    by (simp add: onToolCall_def try_finally_def Let_def setIsAwaitingFunctionResponse_def)
  from j l d show ?thesis by blast
qed

text \<open>
  Two runs that end with an exception: one in which a tool throws and then the send
  throws, one in which serialising the batch throws before the send. In both the flag
  goes up first and down last.
\<close>

theorem awaiting_flag_raised_first_lowered_last_witness:
  "journal (snd (onToolCall
      (example_env\<lparr>sendToolResponse_fault := (\<lambda>rs. Some (Error ''socket closed''))\<rparr>)
      \<lparr>functionCalls = [example_call ''2'' ''failingTool'']\<rparr> example_world))
     = [SendRealtimeText ''hello'', SetIsAwaiting True, ToolInvoked ''failingTool'',
        SendToolResponse [\<lparr>resp_id = ''2'', resp_name = ''failingTool'',
                           resp_result = Text ''Error executing tool failingTool.''\<rparr>],
        SetIsAwaiting False]
   \<and> fst (onToolCall
      (example_env\<lparr>sendToolResponse_fault := (\<lambda>rs. Some (Error ''socket closed''))\<rparr>)
      \<lparr>functionCalls = [example_call ''2'' ''failingTool'']\<rparr> example_world)
     = Inl (Error ''socket closed'')
   \<and> \<not> isAwaitingFunctionResponse (snd (onToolCall
      (example_env\<lparr>sendToolResponse_fault := (\<lambda>rs. Some (Error ''socket closed''))\<rparr>)
      \<lparr>functionCalls = [example_call ''2'' ''failingTool'']\<rparr> example_world))
   \<and> journal (snd (onToolCall circular_env
      \<lparr>functionCalls = [example_call ''1'' ''agriculturalRecommendation'']\<rparr> example_world))
     = [SendRealtimeText ''hello'', SetIsAwaiting True,
        ToolInvoked ''agriculturalRecommendation'', SetIsAwaiting False]"
proof -
  let ?env = "example_env\<lparr>sendToolResponse_fault := (\<lambda>rs. Some (Error ''socket closed''))\<rparr>"
  let ?tc = "\<lparr>functionCalls = [example_call ''2'' ''failingTool'']\<rparr>"
  from awaiting_flag_raised_first_lowered_last
         [where env = ?env and toolCall = ?tc and w = example_world]
  have down: "\<not> isAwaitingFunctionResponse (snd (onToolCall ?env ?tc example_world))"
    by blast
  have run: "journal (snd (onToolCall ?env ?tc example_world))
     = [SendRealtimeText ''hello'', SetIsAwaiting True, ToolInvoked ''failingTool'',
        SendToolResponse [\<lparr>resp_id = ''2'', resp_name = ''failingTool'',
                           resp_result = Text ''Error executing tool failingTool.''\<rparr>],
        SetIsAwaiting False]"
    "fst (onToolCall ?env ?tc example_world) = Inl (Error ''socket closed'')"
    by (simp_all add: run_defs example_env_def example_world_def errorMessage_def)
  have run2: "journal (snd (onToolCall circular_env
      \<lparr>functionCalls = [example_call ''1'' ''agriculturalRecommendation'']\<rparr> example_world))
     = [SendRealtimeText ''hello'', SetIsAwaiting True,
        ToolInvoked ''agriculturalRecommendation'', SetIsAwaiting False]"
    by (simp add: run_defs circular_env_def example_env_def example_world_def)
  from down run run2 show ?thesis by simp
qed

text \<open>
  C5, as amended. \<^verbatim>\<open>connect\<close> fails, with the error \<^verbatim>\<open>config has not been set\<close>, exactly
  when the configuration value is absent (\<^verbatim>\<open>undefined\<close> or \<^verbatim>\<open>null\<close>); a configuration
  object passes the guard, the empty object the hook starts with included. With a
  configuration object, the transcript and the markers are cleared and the client is
  disconnected before \<^verbatim>\<open>client.connect\<close> runs, so the new connection begins on an empty
  transcript, no markers and no live connection. When \<^verbatim>\<open>client.connect\<close> succeeds,
  exactly one connection is live afterwards, also after two calls in succession; when
  it fails, none is.
\<close>

theorem connect_guard_and_fresh_session:
  "(config w = None \<longrightarrow>
      connect transport w = (Inl (Error ''config has not been set''), w))
   \<and> (config w = Some cfg \<longrightarrow>
        connect transport w
          = client_connect transport cfg (client_disconnect (clearMarkers (clearTurns w)))
      \<and> turns (client_disconnect (clearMarkers (clearTurns w))) = []
      \<and> markers (client_disconnect (clearMarkers (clearTurns w))) = []
      \<and> sessions (client_disconnect (clearMarkers (clearTurns w))) = [])
   \<and> (config w = Some cfg \<and> transport cfg = None \<longrightarrow>
        fst (connect transport w) = Inr ()
      \<and> turns (snd (connect transport w)) = []
      \<and> markers (snd (connect transport w)) = []
      \<and> sessions (snd (connect transport w)) = [cfg]
      \<and> sessions (snd (connect transport (snd (connect transport w)))) = [cfg]
      \<and> turns (snd (connect transport (snd (connect transport w)))) = []
      \<and> markers (snd (connect transport (snd (connect transport w)))) = [])
   \<and> (config w = Some cfg \<and> transport cfg = Some e \<longrightarrow>
        fst (connect transport w) = Inl e
      \<and> sessions (snd (connect transport w)) = [])"
  by (simp add: connect_def client_connect_def client_disconnect_def clearMarkers_def
      clearTurns_def)

theorem connect_guard_and_fresh_session_witness:
  "connect (\<lambda>cfg. None) (example_world\<lparr>config := None\<rparr>)
     = (Inl (Error ''config has not been set''), example_world\<lparr>config := None\<rparr>)
   \<and> fst (connect (\<lambda>cfg. None) example_world) = Inr ()
   \<and> turns (snd (connect (\<lambda>cfg. None) example_world)) = []
   \<and> markers (snd (connect (\<lambda>cfg. None) example_world)) = []
   \<and> sessions (snd (connect (\<lambda>cfg. None) example_world)) = [[(''model'', ''live'')]]
   \<and> sessions (snd (connect (\<lambda>cfg. None) (snd (connect (\<lambda>cfg. None) example_world))))
       = [[(''model'', ''live'')]]
   \<and> fst (connect (\<lambda>cfg. Some (Error ''transport'')) example_world) = Inl (Error ''transport'')
   \<and> sessions (snd (connect (\<lambda>cfg. Some (Error ''transport'')) example_world)) = []"
proof -
  have unset: "config (example_world\<lparr>config := None\<rparr>) = None"
    by simp
  have set: "config example_world = Some [(''model'', ''live'')]"
    by (simp add: example_world_def)
  note guard =
    connect_guard_and_fresh_session
      [of "example_world\<lparr>config := None\<rparr>" "\<lambda>cfg. None", THEN conjunct1, rule_format,
       OF unset]
  note fresh =
    connect_guard_and_fresh_session
      [of example_world "\<lambda>cfg. None", THEN conjunct2, THEN conjunct2, THEN conjunct1,
       rule_format, OF conjI [OF set refl]]
  note failed =
    connect_guard_and_fresh_session
      [of example_world "\<lambda>cfg. Some (Error ''transport'')" _ "Error ''transport''",
       THEN conjunct2, THEN conjunct2, THEN conjunct2, rule_format, OF conjI [OF set refl]]
  from guard fresh failed show ?thesis by simp
qed

text \<open>
  In the state the hook starts in, the configuration is the empty object, and
  \<^verbatim>\<open>connect\<close> does not fail.
\<close>

theorem connect_with_empty_config_does_not_fail:
  "fst (connect (\<lambda>cfg. None) (initial_world () :: (unit, unit, unit) world)) = Inr ()
   \<and> config (initial_world () :: (unit, unit, unit) world) = Some []"
  by (simp add: connect_def client_connect_def client_disconnect_def clearMarkers_def
      clearTurns_def initial_world_def)

text \<open>
  C6, as amended. On \<^verbatim>\<open>close\<close> the session is marked disconnected and one final turn is
  appended whose text is the fixed notice followed by the reason of the close event.
  The turn has the role \<^verbatim>\<open>agent\<close>, not \<^verbatim>\<open>system\<close>.
\<close>

theorem onClose_appends_agent_turn:
  "connected (onClose event w) = False
   \<and> turns (onClose event w) = turns w @
       [\<lparr>turn_role = Agent,
         turn_text = ''Session ended. Press 'Play' to start a new session. '' @ reason event,
         isFinal = True\<rparr>]"
  by (simp add: onClose_def addTurn_def setConnected_def Let_def)

text \<open>The turn appended on \<^verbatim>\<open>close\<close> in a fresh session is not a system turn.\<close>

theorem onClose_turn_not_system:
  "turn_role (last (turns (onClose \<lparr>reason = ''going away''\<rparr>
      (initial_world () :: (unit, unit, unit) world)))) \<noteq> System"
  by (simp add: onClose_def addTurn_def setConnected_def Let_def)

text \<open>
  C7. On \<^verbatim>\<open>interrupted\<close>, when the transcript has a last turn and that turn is not final,
  the turn becomes final and nothing else changes: no turn is added, and the text and
  the role of the turn stay. When the transcript is empty or its last turn is final,
  nothing changes at all.
\<close>

theorem onInterrupted_finalises_last_turn:
  "(turns w = ts @ [t] \<and> \<not> isFinal t \<longrightarrow>
       onInterrupted w = w\<lparr>turns := ts @ [t\<lparr>isFinal := True\<rparr>]\<rparr>
     \<and> length (turns (onInterrupted w)) = length (turns w))
   \<and> (turns w = [] \<longrightarrow> onInterrupted w = w)
   \<and> (turns w = ts @ [t] \<and> isFinal t \<longrightarrow> onInterrupted w = w)"
  by (simp add: onInterrupted_def updateLastTurn_def)

theorem onInterrupted_finalises_last_turn_witness:
  "turns (onInterrupted (addTurn \<lparr>turn_role = Agent, turn_text = ''The soil in'', isFinal = False\<rparr>
            (initial_world () :: (unit, unit, unit) world)))
     = [\<lparr>turn_role = Agent, turn_text = ''The soil in'', isFinal = True\<rparr>]
   \<and> onInterrupted (initial_world () :: (unit, unit, unit) world) = initial_world ()
   \<and> onInterrupted (addTurn \<lparr>turn_role = User, turn_text = ''hi'', isFinal = True\<rparr>
            (initial_world () :: (unit, unit, unit) world))
     = addTurn \<lparr>turn_role = User, turn_text = ''hi'', isFinal = True\<rparr> (initial_world ())"
  using
    onInterrupted_finalises_last_turn
      [of "addTurn \<lparr>turn_role = Agent, turn_text = ''The soil in'', isFinal = False\<rparr>
             (initial_world () :: (unit, unit, unit) world)"
          "[]" "\<lparr>turn_role = Agent, turn_text = ''The soil in'', isFinal = False\<rparr>"]
    onInterrupted_finalises_last_turn
      [of "initial_world () :: (unit, unit, unit) world" "[]"
          "\<lparr>turn_role = User, turn_text = [], isFinal = True\<rparr>"]
    onInterrupted_finalises_last_turn
      [of "addTurn \<lparr>turn_role = User, turn_text = ''hi'', isFinal = True\<rparr>
             (initial_world () :: (unit, unit, unit) world)"
          "[]" "\<lparr>turn_role = User, turn_text = ''hi'', isFinal = True\<rparr>"]
  by (simp add: addTurn_def initial_world_def)

text \<open>
  C8, as amended. Let the credential be present and \<^verbatim>\<open>fetch\<close> resolve with a response.
  If the status is 2xx and the body parses as JSON, the call returns the parsed data
  and makes exactly one camera-target update, to
  \<^verbatim>\<open>{center: {lat, lng, altitude: 750}, range: 2500, tilt: 50, heading: 0, roll: 0}\<close>,
  followed by \<^verbatim>\<open>setPreventAutoFrame(true)\<close>. If the status is not 2xx, the call fails
  with \<^verbatim>\<open>API request failed with status <status>: <body>\<close> and touches no camera. If
  the status is 2xx and the body does not parse, the call fails with the parser's
  error and touches no camera. So there is exactly one camera-target update if and
  only if the status is 2xx and the body parses.
\<close>

theorem fetch_zooms_once_after_parsed_success_only:
  assumes "API_KEY henv = Some key" and "truthy_string key"
    and "fetch henv (agriculturalRequest henv key params) = Inr response"
  shows "(ok response \<and> json henv (body response) = Inr data \<longrightarrow>
            fetchAgriculturalRecommendations henv params =
              (Inr data,
               [SetCameraTarget
                  \<lparr>center = \<lparr>lat = latitude params, lng = longitude params,
                             altitude = Num 750\<rparr>,
                   camera_range = Num 2500, tilt = Num 50, heading = Num 0, roll = Num 0\<rparr>,
                SetPreventAutoFrame True])
          \<and> cameraTargetUpdates (snd (fetchAgriculturalRecommendations henv params)) =
              [SetCameraTarget
                  \<lparr>center = \<lparr>lat = latitude params, lng = longitude params,
                             altitude = Num 750\<rparr>,
                   camera_range = Num 2500, tilt = Num 50, heading = Num 0, roll = Num 0\<rparr>])
       \<and> (\<not> ok response \<longrightarrow>
            fetchAgriculturalRecommendations henv params =
              (Inl (Error (''API request failed with status '' @ decimal (status response)
                             @ '': '' @ body response)), []))
       \<and> (ok response \<and> json henv (body response) = Inl error \<longrightarrow>
            fetchAgriculturalRecommendations henv params = (Inl error, []))
       \<and> (length (cameraTargetUpdates (snd (fetchAgriculturalRecommendations henv params))) = 1)
           = (ok response \<and> (\<exists>parsed. json henv (body response) = Inr parsed))"
  using assms
  by (cases "json henv (body response)")
    (simp_all add: fetchAgriculturalRecommendations_def zoomToLocation_def
      cameraTargetUpdates_def requestFailedMessage_def)

theorem fetch_zooms_once_after_parsed_success_only_witness:
  "fetchAgriculturalRecommendations (stubbed_env 200 ''{}'' (Inr ''data'')) example_params =
     (Inr ''data'',
      [SetCameraTarget
         \<lparr>center = \<lparr>lat = Num 12, lng = Num 77, altitude = Num 750\<rparr>,
          camera_range = Num 2500, tilt = Num 50, heading = Num 0, roll = Num 0\<rparr>,
       SetPreventAutoFrame True])
   \<and> fetchAgriculturalRecommendations (stubbed_env 503 ''overloaded'' (Inr ''data''))
         example_params =
       (Inl (Error ''API request failed with status 503: overloaded''), [])
   \<and> fetchAgriculturalRecommendations
         (stubbed_env 200 ''<html>'' (Inl (Error ''Unexpected token''))) example_params =
       (Inl (Error ''Unexpected token''), [])"
proof -
  have key: "API_KEY (stubbed_env st b parsed) = Some ''test-key''" for st b parsed
    by (simp add: stubbed_env_def)
  have truthy: "truthy_string ''test-key''"
    by (simp add: truthy_string_def)
  have resp: "fetch (stubbed_env st b parsed)
      (agriculturalRequest (stubbed_env st b parsed) ''test-key'' example_params)
      = Inr \<lparr>status = st, body = b\<rparr>" for st b parsed
    by (simp add: stubbed_env_def)
  have ok200: "ok \<lparr>status = 200, body = b\<rparr>" for b
    by (simp add: ok_def)
  have ok503: "\<not> ok \<lparr>status = 503, body = b\<rparr>" for b
    by (simp add: ok_def)
  have parsed: "json (stubbed_env st b p) t = p" for st b p t
    by (simp add: stubbed_env_def)
  note success =
    fetch_zooms_once_after_parsed_success_only
      [OF key truthy resp, of 200 "''{}''" "Inr ''data''" "''data''", THEN conjunct1,
       rule_format, OF conjI [OF ok200], THEN conjunct1]
  note refused =
    fetch_zooms_once_after_parsed_success_only
      [OF key truthy resp, of 503 "''overloaded''" "Inr ''data''", THEN conjunct2,
       THEN conjunct1, rule_format, OF ok503]
  note garbled =
    fetch_zooms_once_after_parsed_success_only
      [OF key truthy resp, of 200 "''<html>''" "Inl (Error ''Unexpected token'')" _
         "Error ''Unexpected token''",
       THEN conjunct2, THEN conjunct2, THEN conjunct1, rule_format, OF conjI [OF ok200]]
  from success refused garbled show ?thesis
    by (simp add: parsed decimal_503 example_params_def initial_formData_def)
qed

text \<open>A response with status 200 after which no camera-target update is made.\<close>

theorem fetch_ok_response_without_camera_update:
  "ok \<lparr>status = 200, body = ''<html>''\<rparr>
   \<and> cameraTargetUpdates
        (snd (fetchAgriculturalRecommendations
               (stubbed_env 200 ''<html>'' (Inl (Error ''Unexpected token''))) example_params))
      = []"
  by (simp add: fetchAgriculturalRecommendations_def stubbed_env_def ok_def truthy_string_def
      cameraTargetUpdates_def)

text \<open>
  C9. Each optional numeric input of the form stores \<^verbatim>\<open>parseFloat(value) || undefined\<close>:
  when the text of the input parses to the number 0, the stored field is \<^verbatim>\<open>undefined\<close>,
  not 0. This holds for rainfall, temperature and farm size alike.
\<close>

theorem form_numeric_zero_stored_as_undefined:
  assumes "parseFloat v = Num 0"
  shows "rainfall (onChange_rainfall parseFloat v formData) = None
       \<and> temperature (onChange_temperature parseFloat v formData) = None
       \<and> farmSize (onChange_farmSize parseFloat v formData) = None"
  using assms
  by (simp add: onChange_rainfall_def onChange_temperature_def onChange_farmSize_def
      number_or_undefined_def)

theorem form_numeric_zero_stored_as_undefined_witness:
  "(\<lambda>s. Num 0) ''0'' = Num 0
   \<and> rainfall (onChange_rainfall (\<lambda>s. Num 0) ''0'' initial_formData) = None
   \<and> temperature (onChange_temperature (\<lambda>s. Num 0) ''0'' initial_formData) = None
   \<and> farmSize (onChange_farmSize (\<lambda>s. Num 0) ''0'' initial_formData) = None"
  using form_numeric_zero_stored_as_undefined [of "\<lambda>s. Num 0" "''0''" initial_formData]
  by simp

text \<open>
  C10. In the prompt, a rainfall, temperature or farm size equal to 0 gives the same
  lines as an absent one: the line of that field is empty. An irrigation flag that is
  false gives the line \<^verbatim>\<open>Irrigation Available: No\<close> (and a true one \<^verbatim>\<open>Yes\<close>); only an
  absent flag leaves that line empty.
\<close>

theorem prompt_zero_and_irrigation_lines:
  "agriculturalPrompt_lines sh (p\<lparr>rainfall := Some (Num 0)\<rparr>)
     = agriculturalPrompt_lines sh (p\<lparr>rainfall := None\<rparr>)
   \<and> agriculturalPrompt_lines sh (p\<lparr>temperature := Some (Num 0)\<rparr>)
     = agriculturalPrompt_lines sh (p\<lparr>temperature := None\<rparr>)
   \<and> agriculturalPrompt_lines sh (p\<lparr>farmSize := Some (Num 0)\<rparr>)
     = agriculturalPrompt_lines sh (p\<lparr>farmSize := None\<rparr>)
   \<and> agriculturalPrompt sh (p\<lparr>rainfall := Some (Num 0)\<rparr>)
     = agriculturalPrompt sh (p\<lparr>rainfall := None\<rparr>)
   \<and> agriculturalPrompt sh (p\<lparr>temperature := Some (Num 0)\<rparr>)
     = agriculturalPrompt sh (p\<lparr>temperature := None\<rparr>)
   \<and> agriculturalPrompt sh (p\<lparr>farmSize := Some (Num 0)\<rparr>)
     = agriculturalPrompt sh (p\<lparr>farmSize := None\<rparr>)
   \<and> agriculturalPrompt_lines sh (p\<lparr>rainfall := Some (Num 0)\<rparr>) ! 4 = []
   \<and> agriculturalPrompt_lines sh (p\<lparr>temperature := Some (Num 0)\<rparr>) ! 5 = []
   \<and> agriculturalPrompt_lines sh (p\<lparr>farmSize := Some (Num 0)\<rparr>) ! 7 = []
   \<and> agriculturalPrompt_lines sh (p\<lparr>irrigationAvailable := Some False\<rparr>) ! 6
     = ''Irrigation Available: No''
   \<and> agriculturalPrompt_lines sh (p\<lparr>irrigationAvailable := Some True\<rparr>) ! 6
     = ''Irrigation Available: Yes''
   \<and> agriculturalPrompt_lines sh (p\<lparr>irrigationAvailable := None\<rparr>) ! 6 = []"
  by (simp add: agriculturalPrompt_def agriculturalPrompt_lines_def)

end
